theory Spec2Isabelle
  imports Complex_Main
begin

section \<open>Values\<close>

text \<open>
  The values that travel through the program as \<^verbatim>\<open>Dict[str, Any]\<close>, as the
  \<^verbatim>\<open>content\<close> of a \<^verbatim>\<open>JSONResponse\<close> and as the claims of a token: JSON values,
  \<^verbatim>\<open>datetime\<close> objects (microseconds since the epoch) and any other Python object
  (\<open>PyObject\<close> with the name of its type), such as the exception object in the
  \<^verbatim>\<open>ctx\<close> of a validation error. A dictionary that is written out as a response body
  keeps the order of its keys (an association list); a dictionary that is only read and
  updated by key is a map.
\<close>

datatype py_value =
    JNull
  | JBool bool
  | JInt int
  | JStr string
  | JList "py_value list"
  | JObj "(string \<times> py_value) list"
  | Datetime int
  | PyObject string

text \<open>What \<^verbatim>\<open>json.dumps\<close> accepts: JSON values all the way down. On anything else it
  raises \<^verbatim>\<open>TypeError\<close>.\<close>

fun serialisable :: "py_value \<Rightarrow> bool" where
  "serialisable (JList xs) = list_all serialisable xs"
| "serialisable (JObj kvs) = list_all serialisable (map snd kvs)"
| "serialisable (Datetime t) = False"
| "serialisable (PyObject n) = False"
| "serialisable v = True"

section \<open>Error taxonomy (app/core/exceptions.py)\<close>

text \<open>
  The exception classes the program names. \<^verbatim>\<open>AppException\<close> and its four subclasses
  are defined by the repository; the others come from the libraries it imports
  (Starlette's \<^verbatim>\<open>HTTPException\<close> and FastAPI's subclass of it, FastAPI's
  \<^verbatim>\<open>RequestValidationError\<close>, python-jose's \<^verbatim>\<open>JWTError\<close> and its two subclasses).
  \<open>Other_class n\<close> is any further direct subclass of \<^verbatim>\<open>Exception\<close>, such as
  \<^verbatim>\<open>ValueError\<close>. \<open>Derived_class n bases\<close> is any further class, given by its name and
  the classes that follow it in its method resolution order; a class that inherits from
  two of the named classes is of this kind.
\<close>

datatype app_class =
    AppException_class
  | ValidationException_class
  | NotFoundException_class
  | UnauthorizedException_class
  | ForbiddenException_class

datatype http_class = StarletteHTTPException_class | FastAPIHTTPException_class

datatype jwt_class = JWTError_class | ExpiredSignatureError_class | JWTClaimsError_class

datatype exc_class =
    App_class app_class
  | Http_class http_class
  | RequestValidationError_class
  | Jwt_class jwt_class
  | Other_class string
  | Exception_class
  | Derived_class string "exc_class list"

text \<open>An instance of \<^verbatim>\<open>AppException\<close> or of one of its subclasses: its class and the
  three attributes \<^verbatim>\<open>AppException.__init__\<close> sets.\<close>

record app_exception =
  exc_class :: app_class
  message :: string
  status_code :: int
  details :: "(string \<times> py_value) list"

text \<open>
  \<^verbatim>\<open>AppException.__init__(self, message, status_code=500, details=None)\<close>.
  An omitted optional argument is \<open>None\<close>. \<^verbatim>\<open>details or {}\<close> replaces \<^verbatim>\<open>None\<close> and the
  empty dictionary (both falsy) by a new empty dictionary.
\<close>

definition AppException_init ::
  "app_class \<Rightarrow> string \<Rightarrow> int option \<Rightarrow> (string \<times> py_value) list option \<Rightarrow> app_exception" where
  "AppException_init c msg sc ds =
     \<lparr> exc_class = c,
       message = msg,
       status_code = (case sc of None \<Rightarrow> 500 | Some n \<Rightarrow> n),
       details = (case ds of None \<Rightarrow> [] | Some d \<Rightarrow> if d = [] then [] else d) \<rparr>"

definition AppException ::
  "string \<Rightarrow> int option \<Rightarrow> (string \<times> py_value) list option \<Rightarrow> app_exception" where
  "AppException msg sc ds = AppException_init AppException_class msg sc ds"

definition ValidationException ::
  "string \<Rightarrow> (string \<times> py_value) list option \<Rightarrow> app_exception" where
  "ValidationException msg ds = AppException_init ValidationException_class msg (Some 422) ds"

definition NotFoundException :: "string option \<Rightarrow> app_exception" where
  "NotFoundException msg =
     AppException_init NotFoundException_class
       (case msg of None \<Rightarrow> ''Resource not found'' | Some m \<Rightarrow> m) (Some 404) None"

definition UnauthorizedException :: "string option \<Rightarrow> app_exception" where
  "UnauthorizedException msg =
     AppException_init UnauthorizedException_class
       (case msg of None \<Rightarrow> ''Unauthorized'' | Some m \<Rightarrow> m) (Some 401) None"

definition ForbiddenException :: "string option \<Rightarrow> app_exception" where
  "ForbiddenException msg =
     AppException_init ForbiddenException_class
       (case msg of None \<Rightarrow> ''Forbidden'' | Some m \<Rightarrow> m) (Some 403) None"

text \<open>
  An exception value is an instance of one of the classes above with the attributes the
  handlers read: an \<^verbatim>\<open>HTTPException\<close> has \<^verbatim>\<open>status_code\<close> and \<^verbatim>\<open>detail\<close>, a
  \<^verbatim>\<open>RequestValidationError\<close> the list that \<^verbatim>\<open>errors()\<close> returns, the others their text.
  An instance of a \<open>Derived_class\<close> carries the attributes of the named classes it
  inherits from: \<^verbatim>\<open>message\<close>, \<^verbatim>\<open>status_code\<close> and \<^verbatim>\<open>details\<close> when
  \<^verbatim>\<open>AppException\<close> is among its bases, \<^verbatim>\<open>status_code\<close> and \<^verbatim>\<open>detail\<close> when
  \<^verbatim>\<open>HTTPException\<close> is, \<^verbatim>\<open>errors()\<close> when \<^verbatim>\<open>RequestValidationError\<close> is.
\<close>

record exc_attributes =
  attr_message :: string
  attr_status_code :: int
  attr_details :: "(string \<times> py_value) list"
  attr_detail :: py_value
  attr_errors :: "py_value list"

datatype exn =
    AppExc app_exception
  | HttpExc http_class int py_value
  | RequestValidationError "py_value list"
  | JwtExc jwt_class string
  | OtherExc string string
  | PlainException string
  | DerivedExc string "exc_class list" exc_attributes

fun type_of :: "exn \<Rightarrow> exc_class" where
  "type_of (AppExc e) = App_class (exc_class e)"
| "type_of (HttpExc c sc d) = Http_class c"
| "type_of (RequestValidationError errs) = RequestValidationError_class"
| "type_of (JwtExc c msg) = Jwt_class c"
| "type_of (OtherExc n msg) = Other_class n"
| "type_of (PlainException msg) = Exception_class"
| "type_of (DerivedExc n bases a) = Derived_class n bases"

text \<open>
  The method resolution order of each class, up to \<^verbatim>\<open>Exception\<close>: the class, then its
  base classes from the nearest one on. (\<^verbatim>\<open>BaseException\<close> and \<^verbatim>\<open>object\<close>, and the
  library-internal bases between \<^verbatim>\<open>RequestValidationError\<close> or \<^verbatim>\<open>JWTError\<close> and
  \<^verbatim>\<open>Exception\<close>, are never keys of a handler table and are left out.)
\<close>

fun mro :: "exc_class \<Rightarrow> exc_class list" where
  "mro (App_class AppException_class) = [App_class AppException_class, Exception_class]"
| "mro (App_class c) = [App_class c, App_class AppException_class, Exception_class]"
| "mro (Http_class StarletteHTTPException_class) =
     [Http_class StarletteHTTPException_class, Exception_class]"
| "mro (Http_class FastAPIHTTPException_class) =
     [Http_class FastAPIHTTPException_class, Http_class StarletteHTTPException_class,
      Exception_class]"
| "mro RequestValidationError_class = [RequestValidationError_class, Exception_class]"
| "mro (Jwt_class JWTError_class) = [Jwt_class JWTError_class, Exception_class]"
| "mro (Jwt_class c) = [Jwt_class c, Jwt_class JWTError_class, Exception_class]"
| "mro (Other_class n) = [Other_class n, Exception_class]"
| "mro Exception_class = [Exception_class]"
| "mro (Derived_class n bases) = Derived_class n bases # bases"

definition isinstance :: "exn \<Rightarrow> exc_class \<Rightarrow> bool" where
  "isinstance e c = List.member (mro (type_of e)) c"

text \<open>Exceptions of the Python runtime that the modelled code can raise. The text an
  exception carries (here and for the exceptions of the libraries) varies with the
  version of Python and of the library; it is kept short, and no property below depends
  on it.\<close>

definition AttributeError :: "string \<Rightarrow> exn" where
  "AttributeError attr = OtherExc ''AttributeError'' attr"

definition TypeError :: "string \<Rightarrow> exn" where
  "TypeError msg = OtherExc ''TypeError'' msg"

definition OverflowError :: "string \<Rightarrow> exn" where
  "OverflowError msg = OtherExc ''OverflowError'' msg"

section \<open>Requests and responses\<close>

text \<open>
  What the program reads of a request (method, URL, client address) and the slot
  \<^verbatim>\<open>request.state.request_id\<close> it writes; what it reads and writes of a response.
  \<^verbatim>\<open>response.headers[k] = v\<close> sets the header \<open>k\<close>, replacing a value it had.
\<close>

record request =
  "method" :: string
  url :: string
  client_host :: "string option"
  state_request_id :: "string option"

record response =
  response_status_code :: int
  content :: py_value
  headers :: "string \<rightharpoonup> string"

text \<open>
  A JSON response (\<open>JSONResponse\<close>), and the call \<^verbatim>\<open>JSONResponse(status_code=..., content=...)\<close>
  that builds one (\<open>new_JSONResponse\<close>): the constructor renders the content with
  \<^verbatim>\<open>json.dumps\<close> and so raises \<^verbatim>\<open>TypeError\<close> for a content that is not serialisable.
\<close>

definition JSONResponse :: "int \<Rightarrow> py_value \<Rightarrow> response" where
  "JSONResponse sc c =
     \<lparr> response_status_code = sc, content = c,
       headers = [''content-type'' \<mapsto> ''application/json''] \<rparr>"

definition new_JSONResponse :: "int \<Rightarrow> py_value \<Rightarrow> exn + response" where
  "new_JSONResponse sc c =
     (if serialisable c then Inr (JSONResponse sc c)
      else Inl (TypeError ''Object is not JSON serializable''))"

definition set_header :: "string \<Rightarrow> string \<Rightarrow> response \<Rightarrow> response" where
  "set_header k v r = r\<lparr> headers := (headers r)(k \<mapsto> v) \<rparr>"

text \<open>An application below a middleware answers a request with a response or raises.\<close>

type_synonym endpoint = "request \<Rightarrow> exn + response"

section \<open>Exception handlers (app/core/exceptions.py)\<close>

text \<open>
  A handler is called with the request and the exception. Each of the first three reads
  attributes that only exceptions of its own class have; on any other exception the
  attribute access raises \<^verbatim>\<open>AttributeError\<close>. Each passes what it read to
  \<^verbatim>\<open>JSONResponse\<close> as it is, so the handler raises \<^verbatim>\<open>TypeError\<close> when \<^verbatim>\<open>details\<close>,
  \<^verbatim>\<open>detail\<close> or \<^verbatim>\<open>errors()\<close> holds a value that is not serialisable. The calls to
  the logger write to the log only and are not part of the model.
\<close>

fun app_exception_handler :: "request \<Rightarrow> exn \<Rightarrow> exn + response" where
  "app_exception_handler req (AppExc exc) =
     new_JSONResponse (status_code exc)
       (JObj [(''error'', JBool True),
              (''message'', JStr (message exc)),
              (''details'', JObj (details exc))])"
| "app_exception_handler req (DerivedExc n bases exc) =
     (if List.member bases (App_class AppException_class)
      then new_JSONResponse (attr_status_code exc)
             (JObj [(''error'', JBool True),
                    (''message'', JStr (attr_message exc)),
                    (''details'', JObj (attr_details exc))])
      else Inl (AttributeError ''message''))"
| "app_exception_handler req exc = Inl (AttributeError ''message'')"

fun http_exception_handler :: "request \<Rightarrow> exn \<Rightarrow> exn + response" where
  "http_exception_handler req (HttpExc c sc detail) =
     new_JSONResponse sc
       (JObj [(''error'', JBool True),
              (''message'', detail),
              (''details'', JObj [])])"
| "http_exception_handler req (DerivedExc n bases exc) =
     (if List.member bases (Http_class StarletteHTTPException_class)
      then new_JSONResponse (attr_status_code exc)
             (JObj [(''error'', JBool True),
                    (''message'', attr_detail exc),
                    (''details'', JObj [])])
      else Inl (AttributeError ''detail''))"
| "http_exception_handler req exc = Inl (AttributeError ''detail'')"

fun validation_exception_handler :: "request \<Rightarrow> exn \<Rightarrow> exn + response" where
  "validation_exception_handler req (RequestValidationError errs) =
     new_JSONResponse 422
       (JObj [(''error'', JBool True),
              (''message'', JStr ''Validation error''),
              (''details'', JObj [(''validation_errors'', JList errs)])])"
| "validation_exception_handler req (DerivedExc n bases exc) =
     (if List.member bases RequestValidationError_class
      then new_JSONResponse 422
             (JObj [(''error'', JBool True),
                    (''message'', JStr ''Validation error''),
                    (''details'', JObj [(''validation_errors'', JList (attr_errors exc))])])
      else Inl (AttributeError ''errors''))"
| "validation_exception_handler req exc = Inl (AttributeError ''errors'')"

definition general_exception_handler :: "request \<Rightarrow> exn \<Rightarrow> exn + response" where
  "general_exception_handler req exc =
     new_JSONResponse 500
       (JObj [(''error'', JBool True),
              (''message'', JStr ''Internal server error''),
              (''details'', JObj [])])"

section \<open>The application object and the framework's request cycle\<close>

text \<open>
  The repository configures a FastAPI application through \<^verbatim>\<open>add_middleware\<close> and
  \<^verbatim>\<open>add_exception_handler\<close>; what these calls mean is fixed by the framework
  (Starlette), which is not part of the repository. The definitions of this section
  state the framework's behaviour that the program relies on:
  \<^item> \<^verbatim>\<open>add_middleware\<close> puts the new middleware in front of the list
    \<^verbatim>\<open>user_middleware\<close>, which is kept outermost first (the comment in
    \<^verbatim>\<open>setup_middleware\<close> says the same: middleware run in the reverse order of their
    addition);
  \<^item> \<^verbatim>\<open>add_exception_handler\<close> stores the handler in a dictionary under the exception class;
  \<^item> the application is the stack \<^verbatim>\<open>ServerErrorMiddleware\<close>, the user middleware,
    \<^verbatim>\<open>ExceptionMiddleware\<close>, router, from the outside in. The handler stored under
    \<^verbatim>\<open>Exception\<close> goes to \<^verbatim>\<open>ServerErrorMiddleware\<close>, all others to
    \<^verbatim>\<open>ExceptionMiddleware\<close>, which looks a handler up along the method resolution order
    of the exception's class and re-raises when it finds none. (Handlers can also be
    stored under a status code; the program stores none.)
\<close>

record cors_options =
  allow_origins :: "string list"
  allow_credentials :: bool
  allow_methods :: "string list"
  allow_headers :: "string list"

datatype middleware =
    RequestLoggingMiddleware
  | SecurityHeadersMiddleware
  | CORSMiddleware cors_options

type_synonym handler = "request \<Rightarrow> exn \<Rightarrow> exn + response"

record app =
  user_middleware :: "middleware list"
  exception_handlers :: "exc_class \<rightharpoonup> handler"

text \<open>\<^verbatim>\<open>FastAPI(...)\<close> as \<^verbatim>\<open>create_app\<close> calls it: no user middleware yet. The handlers
  FastAPI installs by default for \<^verbatim>\<open>HTTPException\<close> and \<^verbatim>\<open>RequestValidationError\<close>
  are replaced by \<^verbatim>\<open>setup_exception_handlers\<close> under the same keys and are left out.\<close>

definition FastAPI :: app where
  "FastAPI = \<lparr> user_middleware = [], exception_handlers = Map.empty \<rparr>"

definition add_middleware :: "middleware \<Rightarrow> app \<Rightarrow> app" where
  "add_middleware m a = a\<lparr> user_middleware := m # user_middleware a \<rparr>"

definition add_exception_handler :: "exc_class \<Rightarrow> handler \<Rightarrow> app \<Rightarrow> app" where
  "add_exception_handler c h a = a\<lparr> exception_handlers := (exception_handlers a)(c \<mapsto> h) \<rparr>"

fun lookup_exception_handler :: "(exc_class \<rightharpoonup> handler) \<Rightarrow> exc_class list \<Rightarrow> handler option" where
  "lookup_exception_handler hs [] = None"
| "lookup_exception_handler hs (c # cs) =
     (case hs c of Some h \<Rightarrow> Some h | None \<Rightarrow> lookup_exception_handler hs cs)"

definition ExceptionMiddleware :: "(exc_class \<rightharpoonup> handler) \<Rightarrow> endpoint \<Rightarrow> endpoint" where
  "ExceptionMiddleware hs inner req =
     (case inner req of
        Inr resp \<Rightarrow> Inr resp
      | Inl exc \<Rightarrow>
          (case lookup_exception_handler hs (mro (type_of exc)) of
             None \<Rightarrow> Inl exc
           | Some h \<Rightarrow> h req exc))"

text \<open>Without a handler \<^verbatim>\<open>ServerErrorMiddleware\<close> answers with its own plain-text 500.
  (The application is created without \<^verbatim>\<open>debug\<close>, so the debug page is never used.)\<close>

definition error_response :: response where
  "error_response =
     \<lparr> response_status_code = 500, content = JStr ''Internal Server Error'',
       headers = [''content-type'' \<mapsto> ''text/plain; charset=utf-8''] \<rparr>"

definition ServerErrorMiddleware :: "handler option \<Rightarrow> endpoint \<Rightarrow> endpoint" where
  "ServerErrorMiddleware h inner req =
     (case inner req of
        Inr resp \<Rightarrow> Inr resp
      | Inl exc \<Rightarrow> (case h of None \<Rightarrow> Inr error_response | Some f \<Rightarrow> f req exc))"

definition error_handler :: "app \<Rightarrow> handler option" where
  "error_handler a = exception_handlers a Exception_class"

definition inner_handlers :: "app \<Rightarrow> (exc_class \<rightharpoonup> handler)" where
  "inner_handlers a = (exception_handlers a)(Exception_class := None)"

section \<open>Middleware (app/core/middleware.py)\<close>

text \<open>
  What the runtime supplies while one request is served: the value of
  \<^verbatim>\<open>uuid.uuid4()\<close>, the two readings of \<^verbatim>\<open>time.time()\<close> (before the call of
  \<^verbatim>\<open>call_next\<close> and after it), \<^verbatim>\<open>str\<close> on the elapsed time, and Starlette's
  \<^verbatim>\<open>CORSMiddleware\<close>. For a request, the CORS middleware either answers itself (a
  preflight request) without calling the rest of the chain, or calls the rest of the
  chain and adds its headers to the response; an exception raised below passes through.
  The log entries \<^verbatim>\<open>RequestLoggingMiddleware\<close> writes are not part of the model; on an
  exception it writes one and raises the exception again.
\<close>

datatype cors_action = Preflight response | Simple "(string \<times> string) list"

record runtime =
  uuid4 :: string
  time_start :: real
  time_end :: real
  str_float :: "real \<Rightarrow> string"
  cors :: "cors_options \<Rightarrow> request \<Rightarrow> cors_action"

definition RequestLoggingMiddleware_dispatch :: "runtime \<Rightarrow> request \<Rightarrow> endpoint \<Rightarrow> exn + response" where
  "RequestLoggingMiddleware_dispatch rt req call_next =
     (let request_id = uuid4 rt;
          req1 = req\<lparr> state_request_id := Some request_id \<rparr>;
          start_time = time_start rt
      in case call_next req1 of
           Inl exc \<Rightarrow> Inl exc
         | Inr resp \<Rightarrow>
             (let process_time = time_end rt - start_time
              in Inr (set_header ''X-Process-Time'' (str_float rt process_time)
                       (set_header ''X-Request-ID'' request_id resp))))"

definition SecurityHeadersMiddleware_dispatch :: "request \<Rightarrow> endpoint \<Rightarrow> exn + response" where
  "SecurityHeadersMiddleware_dispatch req call_next =
     (case call_next req of
        Inl exc \<Rightarrow> Inl exc
      | Inr resp \<Rightarrow>
          Inr (set_header ''Referrer-Policy'' ''strict-origin-when-cross-origin''
                (set_header ''X-XSS-Protection'' ''1; mode=block''
                  (set_header ''X-Frame-Options'' ''DENY''
                    (set_header ''X-Content-Type-Options'' ''nosniff'' resp)))))"

definition CORSMiddleware_call :: "runtime \<Rightarrow> cors_options \<Rightarrow> request \<Rightarrow> endpoint \<Rightarrow> exn + response" where
  "CORSMiddleware_call rt opts req call_next =
     (case cors rt opts req of
        Preflight resp \<Rightarrow> Inr resp
      | Simple hs \<Rightarrow>
          (case call_next req of
             Inl exc \<Rightarrow> Inl exc
           | Inr resp \<Rightarrow> Inr (fold (\<lambda>(k, v). set_header k v) hs resp)))"

fun run_middleware :: "runtime \<Rightarrow> middleware \<Rightarrow> endpoint \<Rightarrow> endpoint" where
  "run_middleware rt RequestLoggingMiddleware inner req =
     RequestLoggingMiddleware_dispatch rt req inner"
| "run_middleware rt SecurityHeadersMiddleware inner req =
     SecurityHeadersMiddleware_dispatch req inner"
| "run_middleware rt (CORSMiddleware opts) inner req = CORSMiddleware_call rt opts req inner"

text \<open>\<^verbatim>\<open>build_middleware_stack\<close>: each middleware wraps the ones after it in the list.\<close>

definition build_middleware_stack :: "runtime \<Rightarrow> app \<Rightarrow> endpoint \<Rightarrow> endpoint" where
  "build_middleware_stack rt a router =
     ServerErrorMiddleware (error_handler a)
       (foldr (run_middleware rt) (user_middleware a)
          (ExceptionMiddleware (inner_handlers a) router))"

text \<open>The configuration the modelled code reads from \<^verbatim>\<open>settings\<close> (app/core/config.py).\<close>

record settings =
  secret_key :: string
  algorithm :: string
  access_token_expire_minutes :: int
  cors_origins :: "string list"

definition setup_cors_middleware :: "settings \<Rightarrow> app \<Rightarrow> app" where
  "setup_cors_middleware cfg a =
     add_middleware
       (CORSMiddleware \<lparr> allow_origins = cors_origins cfg, allow_credentials = True,
                         allow_methods = [''*''], allow_headers = [''*''] \<rparr>) a"

definition setup_middleware :: "settings \<Rightarrow> app \<Rightarrow> app" where
  "setup_middleware cfg a =
     add_middleware RequestLoggingMiddleware
       (add_middleware SecurityHeadersMiddleware
          (setup_cors_middleware cfg a))"

definition setup_exception_handlers :: "app \<Rightarrow> app" where
  "setup_exception_handlers a =
     add_exception_handler Exception_class general_exception_handler
       (add_exception_handler RequestValidationError_class validation_exception_handler
          (add_exception_handler (Http_class StarletteHTTPException_class) http_exception_handler
             (add_exception_handler (App_class AppException_class) app_exception_handler a)))"

text \<open>\<^verbatim>\<open>create_app\<close> (app/main.py): the middleware, then the exception handlers. The
  routes it registers are the \<open>router\<close> argument of \<open>build_middleware_stack\<close>.\<close>

definition create_app :: "settings \<Rightarrow> app" where
  "create_app cfg = setup_exception_handlers (setup_middleware cfg FastAPI)"

section \<open>Tokens (app/utils/security.py)\<close>

text \<open>
  A \<^verbatim>\<open>datetime\<close> is a number of microseconds since the epoch and a \<^verbatim>\<open>timedelta\<close> a
  number of microseconds, the resolution of both types. \<^verbatim>\<open>datetime.utcnow()\<close> is the
  argument \<open>utcnow\<close>. A \<^verbatim>\<open>datetime\<close> lies between the first microsecond of year 1 and
  the last of year 9999, and adding a \<^verbatim>\<open>timedelta\<close> that leads out of this range raises
  \<^verbatim>\<open>OverflowError\<close>; so does \<^verbatim>\<open>timedelta(minutes=m)\<close> when it would span more than
  999999999 days.
\<close>

definition datetime_min :: int where
  "datetime_min = - 62135596800000000"

definition datetime_max :: int where
  "datetime_max = 253402300799999999"

definition datetime_add :: "int \<Rightarrow> int \<Rightarrow> exn + int" where
  "datetime_add dt delta =
     (if datetime_min \<le> dt + delta \<and> dt + delta \<le> datetime_max then Inr (dt + delta)
      else Inl (OverflowError ''date value out of range''))"

definition timedelta_minutes :: "int \<Rightarrow> exn + int" where
  "timedelta_minutes m =
     (if - 999999999 \<le> (60 * m) div 86400 \<and> (60 * m) div 86400 \<le> 999999999
      then Inr (60 * m * 1000000)
      else Inl (OverflowError ''days must have magnitude <= 999999999''))"

text \<open>
  The program signs and checks tokens with python-jose, which is not part of the
  repository: \<^verbatim>\<open>jwt.encode(claims, key, algorithm)\<close> returns the token or raises, and
  \<^verbatim>\<open>jwt.decode(token, key, algorithms)\<close> returns the claims or raises; decoding reads the
  clock, which is its last argument here. The library is a parameter of the model. The
  program never looks into a token, so the type of tokens is a parameter too (it is
  \<^verbatim>\<open>str\<close> in the program). The claims of a token are a dictionary from names to values.
\<close>

type_synonym claims = "string \<rightharpoonup> py_value"

record 'tok jose =
  jwt_encode :: "claims \<Rightarrow> string \<Rightarrow> string \<Rightarrow> exn + 'tok"
  jwt_decode :: "'tok \<Rightarrow> string \<Rightarrow> string list \<Rightarrow> int \<Rightarrow> exn + claims"

text \<open>\<^verbatim>\<open>if expires_delta:\<close> holds for a \<^verbatim>\<open>timedelta\<close> other than \<^verbatim>\<open>None\<close> and other
  than the zero duration, which is falsy; \<open>fallback\<close> is the \<^verbatim>\<open>else\<close> branch.\<close>

definition create_access_token ::
  "'tok jose \<Rightarrow> settings \<Rightarrow> int \<Rightarrow> claims \<Rightarrow> int option \<Rightarrow> exn + 'tok" where
  "create_access_token J cfg utcnow data expires_delta =
     (let to_encode = data;
          fallback =
            (case timedelta_minutes (access_token_expire_minutes cfg) of
               Inl exc \<Rightarrow> Inl exc
             | Inr delta \<Rightarrow> datetime_add utcnow delta)
      in case (case expires_delta of
                 Some d \<Rightarrow> if d \<noteq> 0 then datetime_add utcnow d else fallback
               | None \<Rightarrow> fallback) of
           Inl exc \<Rightarrow> Inl exc
         | Inr expire \<Rightarrow>
             jwt_encode J (to_encode(''exp'' \<mapsto> Datetime expire)) (secret_key cfg) (algorithm cfg))"

text \<open>\<^verbatim>\<open>except JWTError\<close> catches \<^verbatim>\<open>JWTError\<close> and its subclasses; any other exception
  passes through.\<close>

definition verify_token :: "'tok jose \<Rightarrow> settings \<Rightarrow> int \<Rightarrow> 'tok \<Rightarrow> exn + claims" where
  "verify_token J cfg utcnow token =
     (case jwt_decode J token (secret_key cfg) [algorithm cfg] utcnow of
        Inr payload \<Rightarrow> Inr payload
      | Inl exc \<Rightarrow>
          if isinstance exc (Jwt_class JWTError_class)
          then Inl (AppExc (UnauthorizedException (Some ''Invalid token'')))
          else Inl exc)"

text \<open>\<^verbatim>\<open>payload.get("sub")\<close> is \<^verbatim>\<open>None\<close> when the key is missing and when its value is
  \<^verbatim>\<open>null\<close>.\<close>

definition decode_access_token :: "'tok jose \<Rightarrow> settings \<Rightarrow> int \<Rightarrow> 'tok \<Rightarrow> exn + py_value" where
  "decode_access_token J cfg utcnow token =
     (case (case verify_token J cfg utcnow token of
              Inl exc \<Rightarrow> Inl exc
            | Inr payload \<Rightarrow>
                (case payload ''sub'' of
                   None \<Rightarrow> Inl (AppExc (UnauthorizedException (Some ''Invalid token payload'')))
                 | Some JNull \<Rightarrow> Inl (AppExc (UnauthorizedException (Some ''Invalid token payload'')))
                 | Some username \<Rightarrow> Inr username)) of
        Inr username \<Rightarrow> Inr username
      | Inl exc \<Rightarrow>
          if isinstance exc (Jwt_class JWTError_class)
          then Inl (AppExc (UnauthorizedException (Some ''Could not validate credentials'')))
          else Inl exc)"


subsection \<open>What the program expects of the library\<close>

text \<open>
  Before it signs, \<^verbatim>\<open>jwt.encode\<close> replaces a \<^verbatim>\<open>datetime\<close> under \<^verbatim>\<open>exp\<close>, \<^verbatim>\<open>iat\<close> or
  \<^verbatim>\<open>nbf\<close> by its time stamp in whole seconds (\<open>to_intdate\<close>).

  \<open>registered_ok c t\<close>: the registered claims of \<open>c\<close> other than \<^verbatim>\<open>exp\<close> have the plain
  form that \<^verbatim>\<open>jwt.decode\<close>, called as \<^verbatim>\<open>verify_token\<close> calls it (no audience, no access
  token), accepts at the time of \<open>t\<close> seconds: \<^verbatim>\<open>iat\<close> an integer, \<^verbatim>\<open>nbf\<close> an integer
  not after \<open>t\<close>, \<^verbatim>\<open>sub\<close> and \<^verbatim>\<open>jti\<close> strings, no \<^verbatim>\<open>aud\<close>, no \<^verbatim>\<open>at_hash\<close>.

  \<open>jose_contract J\<close>: a token the library issued for such claims with an integer \<^verbatim>\<open>exp\<close>
  decodes, under the same key and algorithm, to the claims it was issued for as long as
  \<^verbatim>\<open>exp\<close> is not less than the current time in whole seconds, and raises a
  \<^verbatim>\<open>JWTError\<close> afterwards.
\<close>

definition to_intdate :: "claims \<Rightarrow> claims" where
  "to_intdate c =
     (\<lambda>k. if k = ''exp'' \<or> k = ''iat'' \<or> k = ''nbf''
          then (case c k of Some (Datetime d) \<Rightarrow> Some (JInt (d div 1000000)) | v \<Rightarrow> v)
          else c k)"

definition registered_ok :: "claims \<Rightarrow> int \<Rightarrow> bool" where
  "registered_ok c t \<longleftrightarrow>
     (case c ''iat'' of None \<Rightarrow> True | Some (JInt n) \<Rightarrow> True | Some _ \<Rightarrow> False)
     \<and> (case c ''nbf'' of None \<Rightarrow> True | Some (JInt n) \<Rightarrow> n \<le> t | Some _ \<Rightarrow> False)
     \<and> (case c ''sub'' of None \<Rightarrow> True | Some (JStr s) \<Rightarrow> True | Some _ \<Rightarrow> False)
     \<and> (case c ''jti'' of None \<Rightarrow> True | Some (JStr s) \<Rightarrow> True | Some _ \<Rightarrow> False)
     \<and> c ''aud'' = None
     \<and> c ''at_hash'' = None"


subsection \<open>A reference library\<close>

text \<open>
  A library to run the program on concrete inputs. A token is the claims as they are
  signed together with the key and the algorithm that signed them; decoding checks key
  and algorithm and then validates the claims as python-jose does with the options
  \<^verbatim>\<open>verify_token\<close> leaves at their defaults: \<^verbatim>\<open>iat\<close>, \<^verbatim>\<open>nbf\<close> and \<^verbatim>\<open>exp\<close> go through
  \<^verbatim>\<open>int(...)\<close>, where a \<^verbatim>\<open>ValueError\<close> becomes a \<^verbatim>\<open>JWTClaimsError\<close> and a
  \<^verbatim>\<open>TypeError\<close> (for \<^verbatim>\<open>null\<close>, a list or an object) is not caught; \<^verbatim>\<open>nbf\<close> must not lie
  after the current time and \<^verbatim>\<open>exp\<close> not before it; an \<^verbatim>\<open>aud\<close> claim never matches the
  missing audience; \<^verbatim>\<open>sub\<close> and \<^verbatim>\<open>jti\<close> must be strings; an \<^verbatim>\<open>at_hash\<close> claim cannot be
  checked without an access token.
\<close>

text \<open>\<^verbatim>\<open>int(s)\<close> for a string of ASCII characters: blanks around an optional sign and decimal
  digits, with single underscores allowed between digits.\<close>

definition is_space :: "char \<Rightarrow> bool" where
  "is_space ch \<longleftrightarrow>
     (let n = (of_char ch :: nat) in (9 \<le> n \<and> n \<le> 13) \<or> (28 \<le> n \<and> n \<le> 32))"

definition is_digit :: "char \<Rightarrow> bool" where
  "is_digit ch \<longleftrightarrow> (let n = (of_char ch :: nat) in 48 \<le> n \<and> n \<le> 57)"

definition digit_of :: "char \<Rightarrow> nat" where
  "digit_of ch = of_char ch - 48"

fun digits_value :: "nat \<Rightarrow> string \<Rightarrow> nat option" where
  "digits_value acc [] = Some acc"
| "digits_value acc [ch] = (if is_digit ch then Some (10 * acc + digit_of ch) else None)"
| "digits_value acc (ch # ch' # cs) =
     (if is_digit ch then digits_value (10 * acc + digit_of ch) (ch' # cs)
      else if ch = CHR ''_'' \<and> is_digit ch' then digits_value acc (ch' # cs)
      else None)"

definition int_of_str :: "string \<Rightarrow> int option" where
  "int_of_str s =
     (let stripped = rev (dropWhile is_space (rev (dropWhile is_space s)));
          negative = (case stripped of ch # cs \<Rightarrow> ch = CHR ''-'' | [] \<Rightarrow> False);
          body = (case stripped of
                    ch # cs \<Rightarrow> if ch = CHR ''-'' \<or> ch = CHR ''+'' then cs else stripped
                  | [] \<Rightarrow> [])
      in case body of
           [] \<Rightarrow> None
         | ch # cs \<Rightarrow>
             if is_digit ch
             then map_option (\<lambda>n. if negative then - int n else int n) (digits_value 0 body)
             else None)"

datatype int_conversion = Int_ok int | Int_ValueError | Int_TypeError

fun py_int :: "py_value \<Rightarrow> int_conversion" where
  "py_int (JInt n) = Int_ok n"
| "py_int (JBool b) = Int_ok (if b then 1 else 0)"
| "py_int (JStr s) = (case int_of_str s of Some n \<Rightarrow> Int_ok n | None \<Rightarrow> Int_ValueError)"
| "py_int v = Int_TypeError"

definition int_type_error :: exn where
  "int_type_error =
     TypeError ''int() argument must be a string, a bytes-like object or a real number''"

definition validate_iat :: "claims \<Rightarrow> exn option" where
  "validate_iat c =
     (case c ''iat'' of
        None \<Rightarrow> None
      | Some v \<Rightarrow>
          (case py_int v of
             Int_ok n \<Rightarrow> None
           | Int_ValueError \<Rightarrow>
               Some (JwtExc JWTClaimsError_class ''Issued At claim (iat) must be an integer.'')
           | Int_TypeError \<Rightarrow> Some int_type_error))"

definition validate_nbf :: "claims \<Rightarrow> int \<Rightarrow> exn option" where
  "validate_nbf c now =
     (case c ''nbf'' of
        None \<Rightarrow> None
      | Some v \<Rightarrow>
          (case py_int v of
             Int_ok nbf \<Rightarrow>
               if nbf > now
               then Some (JwtExc JWTClaimsError_class ''The token is not yet valid (nbf)'')
               else None
           | Int_ValueError \<Rightarrow>
               Some (JwtExc JWTClaimsError_class ''Not Before claim (nbf) must be an integer.'')
           | Int_TypeError \<Rightarrow> Some int_type_error))"

definition validate_exp :: "claims \<Rightarrow> int \<Rightarrow> exn option" where
  "validate_exp c now =
     (case c ''exp'' of
        None \<Rightarrow> None
      | Some v \<Rightarrow>
          (case py_int v of
             Int_ok expiry \<Rightarrow>
               if expiry < now
               then Some (JwtExc ExpiredSignatureError_class ''Signature has expired.'')
               else None
           | Int_ValueError \<Rightarrow>
               Some (JwtExc JWTClaimsError_class
                 ''Expiration Time claim (exp) must be an integer.'')
           | Int_TypeError \<Rightarrow> Some int_type_error))"

definition validate_aud :: "claims \<Rightarrow> exn option" where
  "validate_aud c =
     (case c ''aud'' of
        None \<Rightarrow> None
      | Some (JStr s) \<Rightarrow> Some (JwtExc JWTClaimsError_class ''Invalid audience'')
      | Some (JList xs) \<Rightarrow>
          if list_all (\<lambda>x. case x of JStr s \<Rightarrow> True | _ \<Rightarrow> False) xs
          then Some (JwtExc JWTClaimsError_class ''Invalid audience'')
          else Some (JwtExc JWTClaimsError_class ''Invalid claim format in token'')
      | Some _ \<Rightarrow> Some (JwtExc JWTClaimsError_class ''Invalid claim format in token''))"

definition validate_sub :: "claims \<Rightarrow> exn option" where
  "validate_sub c =
     (case c ''sub'' of
        None \<Rightarrow> None
      | Some (JStr s) \<Rightarrow> None
      | Some _ \<Rightarrow> Some (JwtExc JWTClaimsError_class ''Subject must be a string.''))"

definition validate_jti :: "claims \<Rightarrow> exn option" where
  "validate_jti c =
     (case c ''jti'' of
        None \<Rightarrow> None
      | Some (JStr s) \<Rightarrow> None
      | Some _ \<Rightarrow> Some (JwtExc JWTClaimsError_class ''JWT ID must be a string.''))"

definition validate_at_hash :: "claims \<Rightarrow> exn option" where
  "validate_at_hash c =
     (case c ''at_hash'' of
        None \<Rightarrow> None
      | Some _ \<Rightarrow>
          Some (JwtExc JWTClaimsError_class
            ''No access_token provided to compare against at_hash claim.''))"

text \<open>The checks run in this order; the first that fails raises.\<close>

definition validate_claims :: "claims \<Rightarrow> int \<Rightarrow> exn option" where
  "validate_claims c now =
     (case List.map_filter id
             [validate_iat c, validate_nbf c now, validate_exp c now, validate_aud c,
              validate_sub c, validate_jti c, validate_at_hash c] of
        [] \<Rightarrow> None
      | exc # _ \<Rightarrow> Some exc)"

definition claims_serialisable :: "claims \<Rightarrow> bool" where
  "claims_serialisable c \<longleftrightarrow> (\<forall>k v. c k = Some v \<longrightarrow> serialisable v)"

definition reference_jose :: "(claims \<times> string \<times> string) jose" where
  "reference_jose =
     \<lparr> jwt_encode = (\<lambda>c k a.
          if claims_serialisable (to_intdate c) then Inr (to_intdate c, k, a)
          else Inl (TypeError ''Object is not JSON serializable'')),
       jwt_decode = (\<lambda>(c, k, a) key algorithms t.
          if k = key \<and> List.member algorithms a
          then (case validate_claims c (t div 1000000) of None \<Rightarrow> Inr c | Some e \<Rightarrow> Inl e)
          else Inl (JwtExc JWTError_class ''Signature verification failed.'')) \<rparr>"

section \<open>Request dependencies (app/utils/dependencies.py)\<close>

record CommonQueryParams =
  skip :: int
  limit :: int
  order_by :: "string option"
  order_desc :: bool

text \<open>\<^verbatim>\<open>CommonQueryParams.__init__(self, skip=0, limit=100, order_by=None, order_desc=False)\<close>;
  an omitted argument is \<open>None\<close> and takes the default of the signature.\<close>

definition CommonQueryParams_init ::
  "int option \<Rightarrow> int option \<Rightarrow> string option \<Rightarrow> bool option \<Rightarrow> CommonQueryParams" where
  "CommonQueryParams_init skip_arg limit_arg order_by_arg order_desc_arg =
     \<lparr> skip = (case skip_arg of None \<Rightarrow> 0 | Some s \<Rightarrow> s),
       limit = min (case limit_arg of None \<Rightarrow> 100 | Some l \<Rightarrow> l) 1000,
       order_by = order_by_arg,
       order_desc = (case order_desc_arg of None \<Rightarrow> False | Some b \<Rightarrow> b) \<rparr>"

section \<open>Notation and concrete inputs\<close>

text \<open>The options \<^verbatim>\<open>setup_cors_middleware\<close> passes to the CORS middleware.\<close>

abbreviation cors_options_of :: "settings \<Rightarrow> cors_options" where
  "cors_options_of cfg \<equiv>
     \<lparr> allow_origins = cors_origins cfg, allow_credentials = True,
       allow_methods = [''*''], allow_headers = [''*''] \<rparr>"

text \<open>The request as the innermost application sees it: \<^verbatim>\<open>RequestLoggingMiddleware\<close>
  has stored the request id in \<^verbatim>\<open>request.state\<close>.\<close>

abbreviation tagged :: "runtime \<Rightarrow> request \<Rightarrow> request" where
  "tagged rt req \<equiv> req\<lparr> state_request_id := Some (uuid4 rt) \<rparr>"

text \<open>
  The handler of the most specific matching class of an exception: the first class in
  the method resolution order of the exception's class that is \<^verbatim>\<open>AppException\<close>,
  Starlette's \<^verbatim>\<open>HTTPException\<close> or \<^verbatim>\<open>RequestValidationError\<close> decides, and there is none
  when no class of the order is one of the three.
\<close>

definition most_specific_handler :: "exn \<Rightarrow> handler option" where
  "most_specific_handler exc =
     (case List.find
             (\<lambda>c. c = App_class AppException_class
                 \<or> c = Http_class StarletteHTTPException_class
                 \<or> c = RequestValidationError_class) (mro (type_of exc)) of
        None \<Rightarrow> None
      | Some c \<Rightarrow>
          Some (if c = App_class AppException_class then app_exception_handler
                else if c = Http_class StarletteHTTPException_class then http_exception_handler
                else validation_exception_handler))"


text \<open>The default settings of app/core/config.py, a request, and a runtime whose CORS
  middleware lets every request through unchanged.\<close>

definition cfg0 :: settings where
  "cfg0 = \<lparr> secret_key = ''your-secret-key-change-in-production'', algorithm = ''HS256'',
            access_token_expire_minutes = 30, cors_origins = [''*''] \<rparr>"

definition req0 :: request where
  "req0 = \<lparr> method = ''GET'', url = ''http://testserver/items'',
            client_host = Some ''127.0.0.1'', state_request_id = None \<rparr>"

definition rt0 :: runtime where
  "rt0 = \<lparr> uuid4 = ''6f1c2a9e-0000-4000-8000-000000000001'', time_start = 10,
           time_end = 10.25, str_float = (\<lambda>x. ''0.25''), cors = (\<lambda>opts req. Simple []) \<rparr>"

section \<open>The configured application\<close>

lemma user_middleware_create_app:
  "user_middleware (create_app cfg) =
     [RequestLoggingMiddleware, SecurityHeadersMiddleware, CORSMiddleware (cors_options_of cfg)]"
  by (simp add: create_app_def setup_exception_handlers_def setup_middleware_def
      setup_cors_middleware_def add_middleware_def add_exception_handler_def FastAPI_def)

lemma exception_handlers_create_app:
  "exception_handlers (create_app cfg) =
     [App_class AppException_class \<mapsto> app_exception_handler,
      Http_class StarletteHTTPException_class \<mapsto> http_exception_handler,
      RequestValidationError_class \<mapsto> validation_exception_handler,
      Exception_class \<mapsto> general_exception_handler]"
  by (simp add: create_app_def setup_exception_handlers_def setup_middleware_def
      setup_cors_middleware_def add_middleware_def add_exception_handler_def FastAPI_def)

lemma error_handler_create_app:
  "error_handler (create_app cfg) = Some general_exception_handler"
  by (simp add: error_handler_def exception_handlers_create_app)

text \<open>The catch-all answers every exception with the same response.\<close>

lemma general_exception_handler_response:
  "general_exception_handler req exc =
     Inr (JSONResponse 500
       (JObj [(''error'', JBool True),
              (''message'', JStr ''Internal server error''),
              (''details'', JObj [])]))"
  by (simp add: general_exception_handler_def new_JSONResponse_def)

text \<open>The handler \<^verbatim>\<open>ExceptionMiddleware\<close> finds along a method resolution order is the one
  of the first class in it that has a specific handler.\<close>

lemma inner_lookup_create_app:
  "lookup_exception_handler (inner_handlers (create_app cfg)) ms =
     (case List.find
             (\<lambda>c. c = App_class AppException_class
                 \<or> c = Http_class StarletteHTTPException_class
                 \<or> c = RequestValidationError_class) ms of
        None \<Rightarrow> None
      | Some c \<Rightarrow>
          Some (if c = App_class AppException_class then app_exception_handler
                else if c = Http_class StarletteHTTPException_class then http_exception_handler
                else validation_exception_handler))"
  by (induction ms) (auto simp: inner_handlers_def exception_handlers_create_app)

lemma lookup_most_specific:
  "lookup_exception_handler (inner_handlers (create_app cfg)) (mro (type_of exc)) =
     most_specific_handler exc"
  by (simp add: inner_lookup_create_app most_specific_handler_def)

lemma most_specific_handler_None:
  "most_specific_handler exc = None \<longleftrightarrow>
     \<not> isinstance exc (App_class AppException_class)
     \<and> \<not> isinstance exc (Http_class StarletteHTTPException_class)
     \<and> \<not> isinstance exc RequestValidationError_class"
proof -
  have "most_specific_handler exc = None \<longleftrightarrow>
      List.find
        (\<lambda>c. c = App_class AppException_class
            \<or> c = Http_class StarletteHTTPException_class
            \<or> c = RequestValidationError_class) (mro (type_of exc)) = None"
    by (simp add: most_specific_handler_def split: option.splits)
  then show ?thesis
    by (auto simp: isinstance_def find_None_iff)
qed

lemma ExceptionMiddleware_create_app:
  "ExceptionMiddleware (inner_handlers (create_app cfg)) router r =
     (case router r of
        Inr resp \<Rightarrow> Inr resp
      | Inl exc \<Rightarrow>
          (case most_specific_handler exc of None \<Rightarrow> Inl exc | Some h \<Rightarrow> h r exc))"
  by (simp add: ExceptionMiddleware_def lookup_most_specific split: sum.splits)

lemma run_middleware_unfold:
  "run_middleware rt SecurityHeadersMiddleware f = (\<lambda>r1. SecurityHeadersMiddleware_dispatch r1 f)"
  "run_middleware rt (CORSMiddleware opts) f = (\<lambda>r2. CORSMiddleware_call rt opts r2 f)"
  by (rule ext, simp)+

lemma chain_create_app:
  "foldr (run_middleware rt) (user_middleware (create_app cfg)) inner req =
     RequestLoggingMiddleware_dispatch rt req
       (\<lambda>r1. SecurityHeadersMiddleware_dispatch r1
          (\<lambda>r2. CORSMiddleware_call rt (cors_options_of cfg) r2 inner))"
  by (simp add: user_middleware_create_app run_middleware_unfold)

text \<open>A response that reaches the two middleware of the repository leaves them with the
  six headers, and with its status and body unchanged.\<close>

lemma stamped_headers:
  assumes "inner (tagged rt req) = Inr resp0"
  shows "\<exists>resp.
     RequestLoggingMiddleware_dispatch rt req
       (\<lambda>r1. SecurityHeadersMiddleware_dispatch r1 inner) = Inr resp
     \<and> response_status_code resp = response_status_code resp0
     \<and> content resp = content resp0
     \<and> headers resp ''X-Request-ID'' = Some (uuid4 rt)
     \<and> headers resp ''X-Process-Time'' = Some (str_float rt (time_end rt - time_start rt))
     \<and> headers resp ''X-Content-Type-Options'' = Some ''nosniff''
     \<and> headers resp ''X-Frame-Options'' = Some ''DENY''
     \<and> headers resp ''X-XSS-Protection'' = Some ''1; mode=block''
     \<and> headers resp ''Referrer-Policy'' = Some ''strict-origin-when-cross-origin''"
  using assms
  by (simp add: RequestLoggingMiddleware_dispatch_def SecurityHeadersMiddleware_dispatch_def
      set_header_def Let_def)

lemma fold_set_header_keeps:
  "response_status_code (fold (\<lambda>(k, v). set_header k v) hs resp) = response_status_code resp
   \<and> content (fold (\<lambda>(k, v). set_header k v) hs resp) = content resp"
  by (induction hs arbitrary: resp) (auto simp: set_header_def)

text \<open>An exception that passes the middleware chain is answered by the catch-all.\<close>

lemma stack_raises:
  assumes "cors rt (cors_options_of cfg) (tagged rt req) = Simple hs"
      and "ExceptionMiddleware (inner_handlers (create_app cfg)) router (tagged rt req) = Inl e"
  shows "build_middleware_stack rt (create_app cfg) router req =
     Inr (JSONResponse 500
       (JObj [(''error'', JBool True),
              (''message'', JStr ''Internal server error''),
              (''details'', JObj [])]))"
  using assms
  by (simp add: build_middleware_stack_def ServerErrorMiddleware_def chain_create_app
      error_handler_create_app RequestLoggingMiddleware_dispatch_def
      SecurityHeadersMiddleware_dispatch_def CORSMiddleware_call_def
      general_exception_handler_response Let_def)

text \<open>A response of the innermost application is the final response but for headers.\<close>

lemma stack_answers:
  assumes "cors rt (cors_options_of cfg) (tagged rt req) = Simple hs"
      and "ExceptionMiddleware (inner_handlers (create_app cfg)) router (tagged rt req) = Inr r"
  shows "\<exists>resp. build_middleware_stack rt (create_app cfg) router req = Inr resp
     \<and> response_status_code resp = response_status_code r
     \<and> content resp = content r"
  using assms
  by (simp add: build_middleware_stack_def ServerErrorMiddleware_def chain_create_app
      RequestLoggingMiddleware_dispatch_def SecurityHeadersMiddleware_dispatch_def
      CORSMiddleware_call_def set_header_def fold_set_header_keeps Let_def)

lemma rt0_simps:
  "uuid4 rt0 = ''6f1c2a9e-0000-4000-8000-000000000001''"
  "cors rt0 opts r = Simple []"
  "str_float rt0 x = ''0.25''"
  by (simp_all add: rt0_def)

section \<open>Error translation\<close>




text \<open>
  C2: when the CORS middleware passes the request on and the routed handler raises an
  exception that is neither an \<^verbatim>\<open>AppException\<close>, nor a Starlette \<^verbatim>\<open>HTTPException\<close>, nor
  a \<^verbatim>\<open>RequestValidationError\<close>, the application answers with status 500 and exactly the
  body \<^verbatim>\<open>{"error": true, "message": "Internal server error", "details": {}}\<close>. The
  response is the same for every such exception: nothing of the exception is in it.
\<close>

theorem unclassified_failure_response:
  assumes "cors rt (cors_options_of cfg) (tagged rt req) = Simple hs"
      and "router (tagged rt req) = Inl exc"
      and "\<not> isinstance exc (App_class AppException_class)"
      and "\<not> isinstance exc (Http_class StarletteHTTPException_class)"
      and "\<not> isinstance exc RequestValidationError_class"
  shows "build_middleware_stack rt (create_app cfg) router req =
     Inr (JSONResponse 500
       (JObj [(''error'', JBool True),
              (''message'', JStr ''Internal server error''),
              (''details'', JObj [])]))"
proof -
  from assms(3-5) have "most_specific_handler exc = None"
    by (simp add: most_specific_handler_None)
  with assms(2)
  have "ExceptionMiddleware (inner_handlers (create_app cfg)) router (tagged rt req) = Inl exc"
    by (simp add: ExceptionMiddleware_create_app)
  with assms(1) show ?thesis by (rule stack_raises)
qed

theorem unclassified_failure_response_witness:
  "build_middleware_stack rt0 (create_app cfg0)
     (\<lambda>r. Inl (OtherExc ''ValueError'' ''database password is hunter2'')) req0 =
     Inr (JSONResponse 500
       (JObj [(''error'', JBool True),
              (''message'', JStr ''Internal server error''),
              (''details'', JObj [])]))"
proof -
  have n:
    "\<not> isinstance (OtherExc ''ValueError'' ''database password is hunter2'')
        (App_class AppException_class)"
    "\<not> isinstance (OtherExc ''ValueError'' ''database password is hunter2'')
        (Http_class StarletteHTTPException_class)"
    "\<not> isinstance (OtherExc ''ValueError'' ''database password is hunter2'')
        RequestValidationError_class"
    by (simp_all add: isinstance_def)
  show ?thesis
    by (rule unclassified_failure_response
          [where hs = "[]" and exc = "OtherExc ''ValueError'' ''database password is hunter2''"])
       (simp_all add: rt0_simps n)
qed

text \<open>
  C3 (amended): for every request that is answered inside the middleware chain (the
  routed handler returns a response, or it raises an exception and the handler of the
  exception's most specific matching class among \<^verbatim>\<open>AppException\<close>, Starlette's
  \<^verbatim>\<open>HTTPException\<close> and \<^verbatim>\<open>RequestValidationError\<close> translates it into a response, or the
  CORS middleware answers a preflight request itself) the final response carries
  \<^verbatim>\<open>X-Request-ID\<close>, \<^verbatim>\<open>X-Process-Time\<close> and the four security headers with their fixed
  values.
\<close>

theorem responses_carry_core_headers:
  assumes "cors rt (cors_options_of cfg) (tagged rt req) = Preflight resp0
     \<or> router (tagged rt req) = Inr resp0
     \<or> router (tagged rt req) = Inl exc
       \<and> most_specific_handler exc = Some h \<and> h (tagged rt req) exc = Inr resp0"
  shows "\<exists>resp.
     build_middleware_stack rt (create_app cfg) router req = Inr resp
     \<and> headers resp ''X-Request-ID'' = Some (uuid4 rt)
     \<and> headers resp ''X-Process-Time'' = Some (str_float rt (time_end rt - time_start rt))
     \<and> headers resp ''X-Content-Type-Options'' = Some ''nosniff''
     \<and> headers resp ''X-Frame-Options'' = Some ''DENY''
     \<and> headers resp ''X-XSS-Protection'' = Some ''1; mode=block''
     \<and> headers resp ''Referrer-Policy'' = Some ''strict-origin-when-cross-origin''"
proof -
  let ?inner = "ExceptionMiddleware (inner_handlers (create_app cfg)) router"
  let ?cors = "\<lambda>r2. CORSMiddleware_call rt (cors_options_of cfg) r2 ?inner"
  have "\<exists>r. ?cors (tagged rt req) = Inr r"
  proof (cases "cors rt (cors_options_of cfg) (tagged rt req)")
    case (Preflight r)
    then show ?thesis by (simp add: CORSMiddleware_call_def)
  next
    case (Simple hs)
    with assms have "\<exists>r. ?inner (tagged rt req) = Inr r"
      by (auto simp: ExceptionMiddleware_create_app)
    with Simple show ?thesis by (auto simp: CORSMiddleware_call_def)
  qed
  then obtain r where r: "?cors (tagged rt req) = Inr r" ..
  from stamped_headers [where inner = ?cors, OF r]
  obtain resp where resp:
    "RequestLoggingMiddleware_dispatch rt req
       (\<lambda>r1. SecurityHeadersMiddleware_dispatch r1 ?cors) = Inr resp"
    "headers resp ''X-Request-ID'' = Some (uuid4 rt)"
    "headers resp ''X-Process-Time'' = Some (str_float rt (time_end rt - time_start rt))"
    "headers resp ''X-Content-Type-Options'' = Some ''nosniff''"
    "headers resp ''X-Frame-Options'' = Some ''DENY''"
    "headers resp ''X-XSS-Protection'' = Some ''1; mode=block''"
    "headers resp ''Referrer-Policy'' = Some ''strict-origin-when-cross-origin''"
    by blast
  have "build_middleware_stack rt (create_app cfg) router req = Inr resp"
    using resp(1)
    by (simp add: build_middleware_stack_def ServerErrorMiddleware_def chain_create_app)
  with resp(2-) show ?thesis by blast
qed

theorem responses_carry_core_headers_witness:
  "\<exists>resp.
     build_middleware_stack rt0 (create_app cfg0)
       (\<lambda>r. Inl (AppExc (NotFoundException None))) req0 = Inr resp
     \<and> headers resp ''X-Request-ID'' = Some ''6f1c2a9e-0000-4000-8000-000000000001''
     \<and> headers resp ''X-Process-Time'' = Some ''0.25''
     \<and> headers resp ''X-Content-Type-Options'' = Some ''nosniff''
     \<and> headers resp ''X-Frame-Options'' = Some ''DENY''
     \<and> headers resp ''X-XSS-Protection'' = Some ''1; mode=block''
     \<and> headers resp ''Referrer-Policy'' = Some ''strict-origin-when-cross-origin''"
proof -
  let ?nf = "AppExc (NotFoundException None)"
  have m: "most_specific_handler ?nf = Some app_exception_handler"
    by (simp add: most_specific_handler_def NotFoundException_def AppException_init_def)
  have a: "app_exception_handler (tagged rt0 req0) ?nf =
      Inr (JSONResponse 404
        (JObj [(''error'', JBool True),
               (''message'', JStr ''Resource not found''),
               (''details'', JObj [])]))"
    by (simp add: NotFoundException_def AppException_init_def new_JSONResponse_def)
  from m a have
    "cors rt0 (cors_options_of cfg0) (tagged rt0 req0) =
       Preflight (JSONResponse 404
        (JObj [(''error'', JBool True),
               (''message'', JStr ''Resource not found''),
               (''details'', JObj [])]))
     \<or> (\<lambda>r. Inl ?nf) (tagged rt0 req0) =
       Inr (JSONResponse 404
        (JObj [(''error'', JBool True),
               (''message'', JStr ''Resource not found''),
               (''details'', JObj [])]))
     \<or> (\<lambda>r. Inl ?nf) (tagged rt0 req0) = Inl ?nf
       \<and> most_specific_handler ?nf = Some app_exception_handler
       \<and> app_exception_handler (tagged rt0 req0) ?nf =
           Inr (JSONResponse 404
            (JObj [(''error'', JBool True),
                   (''message'', JStr ''Resource not found''),
                   (''details'', JObj [])]))"
    by simp
  from responses_carry_core_headers [where router = "\<lambda>r. Inl ?nf", OF this]
  show ?thesis by (simp add: rt0_simps)
qed

text \<open>
  The claim as stated fails for a failure that the catch-all translates: the exception
  passes both middleware of the repository on its way out, and the response that
  \<^verbatim>\<open>general_exception_handler\<close> builds outside them has none of the six headers.
\<close>

theorem responses_carry_core_headers_counterexample:
  "build_middleware_stack rt0 (create_app cfg0)
     (\<lambda>r. Inl (OtherExc ''ValueError'' ''boom'')) req0 =
     Inr \<lparr> response_status_code = 500,
           content = JObj [(''error'', JBool True),
                           (''message'', JStr ''Internal server error''),
                           (''details'', JObj [])],
           headers = [''content-type'' \<mapsto> ''application/json''] \<rparr>
   \<and> [''content-type'' \<mapsto> ''application/json''] ''X-Request-ID'' = None
   \<and> [''content-type'' \<mapsto> ''application/json''] ''X-Process-Time'' = None
   \<and> [''content-type'' \<mapsto> ''application/json''] ''X-Content-Type-Options'' = None
   \<and> [''content-type'' \<mapsto> ''application/json''] ''X-Frame-Options'' = None
   \<and> [''content-type'' \<mapsto> ''application/json''] ''X-XSS-Protection'' = None
   \<and> [''content-type'' \<mapsto> ''application/json''] ''Referrer-Policy'' = None"
  by (simp add: build_middleware_stack_def ServerErrorMiddleware_def chain_create_app
      error_handler_create_app RequestLoggingMiddleware_dispatch_def
      SecurityHeadersMiddleware_dispatch_def CORSMiddleware_call_def
      ExceptionMiddleware_create_app most_specific_handler_def
      general_exception_handler_response Let_def rt0_simps JSONResponse_def)

text \<open>
  C4 (amended): when the CORS middleware passes the request on and the routed handler
  raises a \<^verbatim>\<open>RequestValidationError\<close> whose list \<^verbatim>\<open>errors()\<close> is serialisable as JSON, the
  response has status 422 and the body
  \<^verbatim>\<open>{"error": true, "message": "Validation error", "details": {"validation_errors": errs}}\<close>,
  where \<open>errs\<close> is that list.
\<close>

theorem validation_failure_response:
  assumes "cors rt (cors_options_of cfg) (tagged rt req) = Simple hs"
      and "router (tagged rt req) = Inl (RequestValidationError errs)"
      and "list_all serialisable errs"
  shows "\<exists>resp.
     build_middleware_stack rt (create_app cfg) router req = Inr resp
     \<and> response_status_code resp = 422
     \<and> content resp =
         JObj [(''error'', JBool True),
               (''message'', JStr ''Validation error''),
               (''details'', JObj [(''validation_errors'', JList errs)])]"
proof -
  let ?r = "JSONResponse 422
         (JObj [(''error'', JBool True),
               (''message'', JStr ''Validation error''),
               (''details'', JObj [(''validation_errors'', JList errs)])])"
  have "most_specific_handler (RequestValidationError errs) = Some validation_exception_handler"
    by (simp add: most_specific_handler_def)
  moreover from assms(3)
  have "validation_exception_handler (tagged rt req) (RequestValidationError errs) = Inr ?r"
    by (simp add: new_JSONResponse_def)
  ultimately
  have "ExceptionMiddleware (inner_handlers (create_app cfg)) router (tagged rt req) = Inr ?r"
    using assms(2) by (simp add: ExceptionMiddleware_create_app)
  from stack_answers [OF assms(1) this] show ?thesis
    by (simp add: JSONResponse_def)
qed

theorem validation_failure_response_witness:
  "\<exists>resp.
     build_middleware_stack rt0 (create_app cfg0)
       (\<lambda>r. Inl (RequestValidationError
          [JObj [(''loc'', JList [JStr ''body'', JStr ''name'']),
                 (''msg'', JStr ''Field required''),
                 (''type'', JStr ''missing'')]])) req0 = Inr resp
     \<and> response_status_code resp = 422
     \<and> content resp =
         JObj [(''error'', JBool True),
               (''message'', JStr ''Validation error''),
               (''details'', JObj [(''validation_errors'', JList
                  [JObj [(''loc'', JList [JStr ''body'', JStr ''name'']),
                         (''msg'', JStr ''Field required''),
                         (''type'', JStr ''missing'')]])])]"
  by (rule validation_failure_response [where hs = "[]"]) (simp_all add: rt0_simps)

text \<open>
  The claim as stated fails for a validation error whose list holds a value that is not
  serialisable, such as the exception object a custom validator leaves in \<^verbatim>\<open>ctx\<close>:
  \<^verbatim>\<open>validation_exception_handler\<close> passes the list to \<^verbatim>\<open>JSONResponse\<close> as it is, which
  raises \<^verbatim>\<open>TypeError\<close>, and the request is answered by the catch-all with status 500.
\<close>

theorem validation_failure_response_counterexample:
  "build_middleware_stack rt0 (create_app cfg0)
     (\<lambda>r. Inl (RequestValidationError
        [JObj [(''type'', JStr ''value_error''),
               (''loc'', JList [JStr ''body'', JStr ''age'']),
               (''msg'', JStr ''Value error, age must be positive''),
               (''ctx'', JObj [(''error'', PyObject ''ValueError'')])]])) req0 =
     Inr \<lparr> response_status_code = 500,
           content = JObj [(''error'', JBool True),
                           (''message'', JStr ''Internal server error''),
                           (''details'', JObj [])],
           headers = [''content-type'' \<mapsto> ''application/json''] \<rparr>"
  by (simp add: build_middleware_stack_def ServerErrorMiddleware_def chain_create_app
      error_handler_create_app RequestLoggingMiddleware_dispatch_def
      SecurityHeadersMiddleware_dispatch_def CORSMiddleware_call_def
      ExceptionMiddleware_create_app most_specific_handler_def
      general_exception_handler_response new_JSONResponse_def JSONResponse_def
      TypeError_def rt0_simps Let_def)

section \<open>Middleware order\<close>

text \<open>
  C5 (amended): \<^verbatim>\<open>setup_middleware\<close> registers the CORS middleware first, then the
  security headers, then the request logger; the chain is, from the outside in, request
  logger, security headers, CORS, so a request passes them in this order on the way in and
  its response in the reverse order on the way out; the middleware registered first
  (CORS) runs closest to the handler and the one registered last (the request logger)
  outermost.
\<close>

theorem middleware_order:
  "setup_middleware cfg a =
     foldl (\<lambda>a m. add_middleware m a) a
       [CORSMiddleware (cors_options_of cfg), SecurityHeadersMiddleware,
        RequestLoggingMiddleware]
   \<and> user_middleware (setup_middleware cfg a) =
       [RequestLoggingMiddleware, SecurityHeadersMiddleware,
        CORSMiddleware (cors_options_of cfg)] @ user_middleware a
   \<and> foldr (run_middleware rt) (user_middleware (setup_middleware cfg FastAPI)) inner req =
       RequestLoggingMiddleware_dispatch rt req
         (\<lambda>r1. SecurityHeadersMiddleware_dispatch r1
            (\<lambda>r2. CORSMiddleware_call rt (cors_options_of cfg) r2 inner))
   \<and> hd (user_middleware (setup_middleware cfg FastAPI)) = RequestLoggingMiddleware
   \<and> last (user_middleware (setup_middleware cfg FastAPI)) =
       CORSMiddleware (cors_options_of cfg)"
  by (simp add: setup_middleware_def setup_cors_middleware_def add_middleware_def FastAPI_def
      run_middleware_unfold)

theorem middleware_order_witness:
  "user_middleware (setup_middleware cfg0 FastAPI) =
     [RequestLoggingMiddleware, SecurityHeadersMiddleware,
      CORSMiddleware \<lparr> allow_origins = [''*''], allow_credentials = True,
                        allow_methods = [''*''], allow_headers = [''*''] \<rparr>]"
  using middleware_order [of cfg0 FastAPI, THEN conjunct2, THEN conjunct1]
  by (simp add: cfg0_def FastAPI_def)

text \<open>
  The claim as stated fails in its last part: the middleware registered last is
  \<^verbatim>\<open>RequestLoggingMiddleware\<close>, and the one closest to the handler (the last of the
  chain) is the CORS middleware.
\<close>

theorem middleware_order_counterexample:
  "setup_middleware cfg0 FastAPI =
     add_middleware RequestLoggingMiddleware
       (add_middleware SecurityHeadersMiddleware
          (add_middleware
             (CORSMiddleware \<lparr> allow_origins = [''*''], allow_credentials = True,
                               allow_methods = [''*''], allow_headers = [''*''] \<rparr>) FastAPI))
   \<and> last (user_middleware (setup_middleware cfg0 FastAPI)) \<noteq> RequestLoggingMiddleware
   \<and> last (user_middleware (setup_middleware cfg0 FastAPI)) =
       CORSMiddleware \<lparr> allow_origins = [''*''], allow_credentials = True,
                         allow_methods = [''*''], allow_headers = [''*''] \<rparr>"
  by (simp add: setup_middleware_def setup_cors_middleware_def add_middleware_def FastAPI_def
      cfg0_def)

section \<open>Tokens\<close>

lemma unauthorized_not_jwt:
  "\<not> isinstance (AppExc (UnauthorizedException m)) (Jwt_class JWTError_class)"
  by (simp add: isinstance_def UnauthorizedException_def AppException_init_def)

lemma unauthorized_status: "status_code (UnauthorizedException m) = 401"
  by (simp add: UnauthorizedException_def AppException_init_def)

text \<open>How the conversion of the time claims and the update of a claim commute.\<close>

lemma to_intdate_empty: "to_intdate Map.empty = Map.empty"
  by (rule ext) (simp add: to_intdate_def)

lemma to_intdate_update:
  "to_intdate (c(k \<mapsto> v)) =
     (to_intdate c)(k \<mapsto>
        (if k = ''exp'' \<or> k = ''iat'' \<or> k = ''nbf''
         then (case v of Datetime d \<Rightarrow> JInt (d div 1000000) | _ \<Rightarrow> v) else v))"
  by (rule ext) (auto simp: to_intdate_def split: py_value.splits)




lemma claims_serialisable_empty: "claims_serialisable Map.empty"
  by (simp add: claims_serialisable_def)

lemma claims_serialisable_update:
  assumes "serialisable v" and "claims_serialisable c"
  shows "claims_serialisable (c(k \<mapsto> v))"
  using assms by (auto simp: claims_serialisable_def)

text \<open>The validation of the reference library on claims of the plain form: only the
  expiry decides.\<close>

lemma validate_claims_registered_ok:
  assumes "registered_ok c t" and "c ''exp'' = Some (JInt x)"
  shows "validate_claims c t =
     (if x < t then Some (JwtExc ExpiredSignatureError_class ''Signature has expired.'')
      else None)"
proof -
  from assms(1) have "validate_iat c = None"
    by (auto simp: registered_ok_def validate_iat_def split: option.splits py_value.splits)
  moreover from assms(1) have "validate_nbf c t = None"
    by (auto simp: registered_ok_def validate_nbf_def split: option.splits py_value.splits)
  moreover from assms(2) have "validate_exp c t =
      (if x < t then Some (JwtExc ExpiredSignatureError_class ''Signature has expired.'')
       else None)"
    by (simp add: validate_exp_def)
  moreover from assms(1) have "validate_aud c = None"
    by (simp add: registered_ok_def validate_aud_def)
  moreover from assms(1) have "validate_sub c = None"
    by (auto simp: registered_ok_def validate_sub_def split: option.splits py_value.splits)
  moreover from assms(1) have "validate_jti c = None"
    by (auto simp: registered_ok_def validate_jti_def split: option.splits py_value.splits)
  moreover from assms(1) have "validate_at_hash c = None"
    by (simp add: registered_ok_def validate_at_hash_def)
  ultimately show ?thesis
    by (simp add: validate_claims_def List.map_filter_simps)
qed






text \<open>
  C7 (amended): for every token, \<^verbatim>\<open>verify_token\<close> returns the decoded claims when the
  library decodes the token; it fails with the \<^verbatim>\<open>UnauthorizedException\<close> "Invalid
  token", whose status code is 401 and which is not a \<^verbatim>\<open>JWTError\<close>, whenever the library
  raises a \<^verbatim>\<open>JWTError\<close> (as it does for a bad signature, a malformed token and an
  expired \<^verbatim>\<open>exp\<close>); and any other exception the library raises reaches the caller as it
  is.
\<close>

theorem verify_token_unauthorized:
  "(jwt_decode J token (secret_key cfg) [algorithm cfg] now = Inr payload \<longrightarrow>
      verify_token J cfg now token = Inr payload)
   \<and> (jwt_decode J token (secret_key cfg) [algorithm cfg] now = Inl e
        \<and> isinstance e (Jwt_class JWTError_class) \<longrightarrow>
      verify_token J cfg now token =
        Inl (AppExc (UnauthorizedException (Some ''Invalid token''))))
   \<and> (jwt_decode J token (secret_key cfg) [algorithm cfg] now = Inl e
        \<and> \<not> isinstance e (Jwt_class JWTError_class) \<longrightarrow>
      verify_token J cfg now token = Inl e)
   \<and> exc_class (UnauthorizedException (Some ''Invalid token'')) = UnauthorizedException_class
   \<and> status_code (UnauthorizedException (Some ''Invalid token'')) = 401
   \<and> \<not> isinstance (AppExc (UnauthorizedException (Some ''Invalid token'')))
         (Jwt_class JWTError_class)"
  by (simp add: verify_token_def unauthorized_not_jwt unauthorized_status)
     (simp add: UnauthorizedException_def AppException_init_def)

theorem verify_token_unauthorized_witness:
  "verify_token reference_jose cfg0 2000000000
      ([''sub'' \<mapsto> JStr ''alice'', ''exp'' \<mapsto> JInt 1060],
       ''your-secret-key-change-in-production'', ''HS256'') =
     Inl (AppExc (UnauthorizedException (Some ''Invalid token'')))
   \<and> verify_token reference_jose cfg0 2000000000
      ([''sub'' \<mapsto> JStr ''alice'', ''exp'' \<mapsto> JInt 9999], ''forged key'', ''HS256'') =
     Inl (AppExc (UnauthorizedException (Some ''Invalid token'')))
   \<and> verify_token reference_jose cfg0 2000000000
      ([''sub'' \<mapsto> JStr ''alice'', ''exp'' \<mapsto> JInt 9999],
       ''your-secret-key-change-in-production'', ''HS256'') =
     Inr [''sub'' \<mapsto> JStr ''alice'', ''exp'' \<mapsto> JInt 9999]"
proof -
  let ?expired = "([''sub'' \<mapsto> JStr ''alice'', ''exp'' \<mapsto> JInt 1060],
       ''your-secret-key-change-in-production'', ''HS256'')"
  let ?forged = "([''sub'' \<mapsto> JStr ''alice'', ''exp'' \<mapsto> JInt 9999],
       ''forged key'', ''HS256'')"
  let ?good = "([''sub'' \<mapsto> JStr ''alice'', ''exp'' \<mapsto> JInt 9999],
       ''your-secret-key-change-in-production'', ''HS256'')"
  have v: "validate_claims [''sub'' \<mapsto> JStr ''alice'', ''exp'' \<mapsto> JInt x] t =
      (if x < t then Some (JwtExc ExpiredSignatureError_class ''Signature has expired.'')
       else None)" for x t
    by (rule validate_claims_registered_ok) (simp_all add: registered_ok_def)
  have d1: "jwt_decode reference_jose ?expired (secret_key cfg0) [algorithm cfg0] 2000000000 =
      Inl (JwtExc ExpiredSignatureError_class ''Signature has expired.'')"
    by (simp add: reference_jose_def v cfg0_def)
  have d2: "jwt_decode reference_jose ?forged (secret_key cfg0) [algorithm cfg0] 2000000000 =
      Inl (JwtExc JWTError_class ''Signature verification failed.'')"
    by (simp add: reference_jose_def v cfg0_def)
  have d3: "jwt_decode reference_jose ?good (secret_key cfg0) [algorithm cfg0] 2000000000 =
      Inr [''sub'' \<mapsto> JStr ''alice'', ''exp'' \<mapsto> JInt 9999]"
    by (simp add: reference_jose_def v cfg0_def)
  have i1: "isinstance (JwtExc ExpiredSignatureError_class ''Signature has expired.'')
      (Jwt_class JWTError_class)"
    by (simp add: isinstance_def)
  have i2: "isinstance (JwtExc JWTError_class ''Signature verification failed.'')
      (Jwt_class JWTError_class)"
    by (simp add: isinstance_def)
  have 1: "verify_token reference_jose cfg0 2000000000 ?expired =
     Inl (AppExc (UnauthorizedException (Some ''Invalid token'')))"
    using verify_token_unauthorized
      [where J = reference_jose and token = ?expired and cfg = cfg0 and now = 2000000000
         and e = "JwtExc ExpiredSignatureError_class ''Signature has expired.''"] d1 i1
    by blast
  have 2: "verify_token reference_jose cfg0 2000000000 ?forged =
     Inl (AppExc (UnauthorizedException (Some ''Invalid token'')))"
    using verify_token_unauthorized
      [where J = reference_jose and token = ?forged and cfg = cfg0 and now = 2000000000
         and e = "JwtExc JWTError_class ''Signature verification failed.''"] d2 i2
    by blast
  have 3: "verify_token reference_jose cfg0 2000000000 ?good =
     Inr [''sub'' \<mapsto> JStr ''alice'', ''exp'' \<mapsto> JInt 9999]"
    using verify_token_unauthorized
      [where J = reference_jose and token = ?good and cfg = cfg0 and now = 2000000000
         and payload = "[''sub'' \<mapsto> JStr ''alice'', ''exp'' \<mapsto> JInt 9999]"] d3
    by blast
  from 1 2 3 show ?thesis by blast
qed

text \<open>
  The claim as stated fails for a token that is signed with the configured key and
  whose \<^verbatim>\<open>exp\<close> claim is \<^verbatim>\<open>null\<close>: the library's \<^verbatim>\<open>int(claims["exp"])\<close> raises
  \<^verbatim>\<open>TypeError\<close>, which \<^verbatim>\<open>except JWTError\<close> does not catch, so the caller receives the
  \<^verbatim>\<open>TypeError\<close> and not an \<^verbatim>\<open>UnauthorizedException\<close>.
\<close>

theorem verify_token_unauthorized_counterexample:
  "verify_token reference_jose cfg0 1700000000000000
      ([''sub'' \<mapsto> JStr ''alice'', ''exp'' \<mapsto> JNull],
       ''your-secret-key-change-in-production'', ''HS256'') =
     Inl (TypeError ''int() argument must be a string, a bytes-like object or a real number'')
   \<and> TypeError ''int() argument must be a string, a bytes-like object or a real number'' \<noteq>
       AppExc (UnauthorizedException (Some ''Invalid token''))"
  by (simp add: verify_token_def reference_jose_def cfg0_def validate_claims_def
      validate_iat_def validate_nbf_def validate_exp_def List.map_filter_simps
      int_type_error_def TypeError_def isinstance_def)

text \<open>
  C8 (amended): for every token, \<^verbatim>\<open>decode_access_token\<close> first verifies it: when
  decoding raises a \<^verbatim>\<open>JWTError\<close> it fails with the \<^verbatim>\<open>UnauthorizedException\<close> of
  \<^verbatim>\<open>verify_token\<close>; when the verified payload has no \<^verbatim>\<open>sub\<close> claim, or a null one, it
  fails with the \<^verbatim>\<open>UnauthorizedException\<close> "Invalid token payload"; when \<^verbatim>\<open>sub\<close> is
  present and not null it returns that value (also when it is the empty string). Both
  failures have status code 401.
\<close>

theorem decode_access_token_subject:
  "(jwt_decode J token (secret_key cfg) [algorithm cfg] now = Inl e
      \<and> isinstance e (Jwt_class JWTError_class) \<longrightarrow>
      decode_access_token J cfg now token =
        Inl (AppExc (UnauthorizedException (Some ''Invalid token''))))
   \<and> (verify_token J cfg now token = Inr payload
      \<and> (payload ''sub'' = None \<or> payload ''sub'' = Some JNull) \<longrightarrow>
      decode_access_token J cfg now token =
        Inl (AppExc (UnauthorizedException (Some ''Invalid token payload''))))
   \<and> (verify_token J cfg now token = Inr payload
      \<and> payload ''sub'' = Some username \<and> username \<noteq> JNull \<longrightarrow>
      decode_access_token J cfg now token = Inr username)
   \<and> status_code (UnauthorizedException (Some ''Invalid token'')) = 401
   \<and> status_code (UnauthorizedException (Some ''Invalid token payload'')) = 401"
proof -
  have a: "decode_access_token J cfg now token =
        Inl (AppExc (UnauthorizedException (Some ''Invalid token'')))"
    if "jwt_decode J token (secret_key cfg) [algorithm cfg] now = Inl e"
      "isinstance e (Jwt_class JWTError_class)"
    using that by (simp add: decode_access_token_def verify_token_def unauthorized_not_jwt)
  have b: "decode_access_token J cfg now token =
        Inl (AppExc (UnauthorizedException (Some ''Invalid token payload'')))"
    if "verify_token J cfg now token = Inr payload"
      "payload ''sub'' = None \<or> payload ''sub'' = Some JNull"
    using that by (auto simp: decode_access_token_def unauthorized_not_jwt)
  have c: "decode_access_token J cfg now token = Inr username"
    if "verify_token J cfg now token = Inr payload" "payload ''sub'' = Some username"
      "username \<noteq> JNull"
    using that by (cases username) (simp_all add: decode_access_token_def)
  from a b c unauthorized_status show ?thesis by blast
qed

theorem decode_access_token_subject_witness:
  "decode_access_token reference_jose cfg0 2000000000
      ([''sub'' \<mapsto> JStr ''alice'', ''exp'' \<mapsto> JInt 9999],
       ''your-secret-key-change-in-production'', ''HS256'') = Inr (JStr ''alice'')
   \<and> decode_access_token reference_jose cfg0 2000000000
      ([''exp'' \<mapsto> JInt 9999], ''your-secret-key-change-in-production'', ''HS256'') =
       Inl (AppExc (UnauthorizedException (Some ''Invalid token payload'')))
   \<and> decode_access_token reference_jose cfg0 2000000000
      ([''sub'' \<mapsto> JStr ''alice'', ''exp'' \<mapsto> JInt 1060],
       ''your-secret-key-change-in-production'', ''HS256'') =
       Inl (AppExc (UnauthorizedException (Some ''Invalid token'')))"
proof -
  let ?good = "([''sub'' \<mapsto> JStr ''alice'', ''exp'' \<mapsto> JInt 9999],
       ''your-secret-key-change-in-production'', ''HS256'')"
  let ?nosub = "([''exp'' \<mapsto> JInt 9999], ''your-secret-key-change-in-production'', ''HS256'')"
  let ?expired = "([''sub'' \<mapsto> JStr ''alice'', ''exp'' \<mapsto> JInt 1060],
       ''your-secret-key-change-in-production'', ''HS256'')"
  have v: "validate_claims [''sub'' \<mapsto> JStr ''alice'', ''exp'' \<mapsto> JInt x] t =
      (if x < t then Some (JwtExc ExpiredSignatureError_class ''Signature has expired.'')
       else None)" for x t
    by (rule validate_claims_registered_ok) (simp_all add: registered_ok_def)
  have v': "validate_claims [''exp'' \<mapsto> JInt x] t =
      (if x < t then Some (JwtExc ExpiredSignatureError_class ''Signature has expired.'')
       else None)" for x t
    by (rule validate_claims_registered_ok) (simp_all add: registered_ok_def)
  have v1: "verify_token reference_jose cfg0 2000000000 ?good =
      Inr [''sub'' \<mapsto> JStr ''alice'', ''exp'' \<mapsto> JInt 9999]"
    by (simp add: verify_token_def reference_jose_def v cfg0_def)
  have v2: "verify_token reference_jose cfg0 2000000000 ?nosub = Inr [''exp'' \<mapsto> JInt 9999]"
    by (simp add: verify_token_def reference_jose_def v' cfg0_def)
  have d3: "jwt_decode reference_jose ?expired (secret_key cfg0) [algorithm cfg0] 2000000000 =
      Inl (JwtExc ExpiredSignatureError_class ''Signature has expired.'')"
    by (simp add: reference_jose_def v cfg0_def)
  have i3: "isinstance (JwtExc ExpiredSignatureError_class ''Signature has expired.'')
      (Jwt_class JWTError_class)"
    by (simp add: isinstance_def)
  have 1: "decode_access_token reference_jose cfg0 2000000000 ?good = Inr (JStr ''alice'')"
    using decode_access_token_subject
      [where J = reference_jose and token = ?good and cfg = cfg0 and now = 2000000000
         and payload = "[''sub'' \<mapsto> JStr ''alice'', ''exp'' \<mapsto> JInt 9999]"
         and username = "JStr ''alice''"] v1
    by simp
  have 2: "decode_access_token reference_jose cfg0 2000000000 ?nosub =
       Inl (AppExc (UnauthorizedException (Some ''Invalid token payload'')))"
    using decode_access_token_subject
      [where J = reference_jose and token = ?nosub and cfg = cfg0 and now = 2000000000
         and payload = "[''exp'' \<mapsto> JInt 9999]"] v2
    by simp
  have 3: "decode_access_token reference_jose cfg0 2000000000 ?expired =
       Inl (AppExc (UnauthorizedException (Some ''Invalid token'')))"
    using decode_access_token_subject
      [where J = reference_jose and token = ?expired and cfg = cfg0 and now = 2000000000
         and e = "JwtExc ExpiredSignatureError_class ''Signature has expired.''"] d3 i3
    by simp
  from 1 2 3 show ?thesis by blast
qed

text \<open>
  The claim as stated fails for an empty subject: the token that
  \<^verbatim>\<open>create_access_token\<close> issues for the claims \<^verbatim>\<open>{"sub": ""}\<close> verifies, and
  \<^verbatim>\<open>decode_access_token\<close> returns the empty string for it instead of failing.
\<close>

theorem decode_access_token_subject_counterexample:
  "create_access_token reference_jose cfg0 1000000000 [''sub'' \<mapsto> JStr ''''] None =
      Inr ([''sub'' \<mapsto> JStr '''', ''exp'' \<mapsto> JInt 2800],
           ''your-secret-key-change-in-production'', ''HS256'')
   \<and> decode_access_token reference_jose cfg0 1000000000
      ([''sub'' \<mapsto> JStr '''', ''exp'' \<mapsto> JInt 2800],
       ''your-secret-key-change-in-production'', ''HS256'') = Inr (JStr '''')"
proof -
  have s: "claims_serialisable [''sub'' \<mapsto> JStr '''', ''exp'' \<mapsto> JInt 2800]"
    by (intro claims_serialisable_update claims_serialisable_empty) simp_all
  have v: "validate_claims [''sub'' \<mapsto> JStr '''', ''exp'' \<mapsto> JInt 2800] 1000 = None"
    using validate_claims_registered_ok
      [of "[''sub'' \<mapsto> JStr '''', ''exp'' \<mapsto> JInt 2800]" 1000 2800]
    by (simp add: registered_ok_def)
  show ?thesis
    using s
    by (simp add: create_access_token_def decode_access_token_def verify_token_def
        reference_jose_def cfg0_def datetime_add_def datetime_min_def datetime_max_def
        timedelta_minutes_def to_intdate_update to_intdate_empty v)
qed

section \<open>Constructors\<close>

text \<open>
  C9: every constructed classified error has the status code of its class: a
  \<^verbatim>\<open>ValidationException\<close> 422, a \<^verbatim>\<open>NotFoundException\<close> 404, an
  \<^verbatim>\<open>UnauthorizedException\<close> 401, a \<^verbatim>\<open>ForbiddenException\<close> 403, and a plain
  \<^verbatim>\<open>AppException\<close> built without a status code 500, whatever the other arguments are.
\<close>

theorem status_code_consistent_with_class:
  "status_code (ValidationException msg ds) = 422
   \<and> exc_class (ValidationException msg ds) = ValidationException_class
   \<and> status_code (NotFoundException m) = 404
   \<and> exc_class (NotFoundException m) = NotFoundException_class
   \<and> status_code (UnauthorizedException m) = 401
   \<and> exc_class (UnauthorizedException m) = UnauthorizedException_class
   \<and> status_code (ForbiddenException m) = 403
   \<and> exc_class (ForbiddenException m) = ForbiddenException_class
   \<and> status_code (AppException msg None ds) = 500
   \<and> exc_class (AppException msg None ds) = AppException_class"
  by (simp add: ValidationException_def NotFoundException_def UnauthorizedException_def
      ForbiddenException_def AppException_def AppException_init_def)

theorem status_code_consistent_with_class_witness:
  "status_code (ValidationException ''bad email'' (Some [(''field'', JStr ''email'')])) = 422
   \<and> status_code (NotFoundException None) = 404
   \<and> status_code (UnauthorizedException (Some ''Invalid token'')) = 401
   \<and> status_code (ForbiddenException None) = 403
   \<and> status_code (AppException ''boom'' None None) = 500"
  using status_code_consistent_with_class
    [of "''bad email''" "Some [(''field'', JStr ''email'')]" None]
    status_code_consistent_with_class [of "''boom''" None "Some ''Invalid token''"]
  by simp

text \<open>
  C10: for every construction of \<^verbatim>\<open>CommonQueryParams\<close> with arguments skip, limit,
  order_by and order_desc the stored limit is \<open>min limit 1000\<close>, so it never exceeds 1000
  (also when the limit is left to its default), and the other three arguments are stored
  unchanged.
\<close>

theorem CommonQueryParams_limit_capped:
  "limit (CommonQueryParams_init (Some s) (Some l) ob (Some od)) = min l 1000
   \<and> limit (CommonQueryParams_init skip_arg limit_arg ob order_desc_arg) \<le> 1000
   \<and> skip (CommonQueryParams_init (Some s) (Some l) ob (Some od)) = s
   \<and> order_by (CommonQueryParams_init (Some s) (Some l) ob (Some od)) = ob
   \<and> order_desc (CommonQueryParams_init (Some s) (Some l) ob (Some od)) = od"
  by (simp add: CommonQueryParams_init_def)

theorem CommonQueryParams_limit_capped_witness:
  "limit (CommonQueryParams_init (Some 20) (Some 5000) (Some ''name'') (Some True)) = 1000
   \<and> skip (CommonQueryParams_init (Some 20) (Some 5000) (Some ''name'') (Some True)) = 20
   \<and> order_by (CommonQueryParams_init (Some 20) (Some 5000) (Some ''name'') (Some True)) =
       Some ''name''
   \<and> order_desc (CommonQueryParams_init (Some 20) (Some 5000) (Some ''name'') (Some True))"
  using CommonQueryParams_limit_capped [of 20 5000 "Some ''name''" True]
  by simp

end
